theory Spec2Isabelle
  imports Complex_Main "HOL-Library.Product_Lexorder" "HOL-Library.Multiset"
begin

section \<open>Time tracker: time logging, summaries and invoices\<close>

text \<open>
  A shallow embedding of the whitelisted methods of \<^verbatim>\<open>timepy.py\<close> (time\_api) and
  \<^verbatim>\<open>billing.py\<close> (billing\_api). The methods run on top of the Frappe framework; the
  parts of the framework they call are modelled here by what the source relies on:
  \<^item> the document store is a record holding the Project table, the Time Log table in
    insertion order, the next free document name and a counter of the read queries served;
  \<^item> the ambient session (\<^verbatim>\<open>frappe.session.user\<close>, roles, permission verdicts, the
    current date) is an explicit \<open>session\<close> argument;
  \<^item> an exception is a value \<open>Inl (exception type, message)\<close>; every function returns its
    result together with the store it leaves behind;
  \<^item> a Python float is an IEEE double: a finite value, NaN or an infinity; additions
    and multiplications round to the nearest double.
\<close>

subsection \<open>Values, dates, errors\<close>

text \<open>
  A Python float. \<open>Fin x\<close> is the finite double of value \<open>x\<close> (the two zeros are not
  told apart), \<open>NaN\<close> is not-a-number, \<open>PInf\<close> and \<open>NInf\<close> are the infinities.
\<close>

datatype pyfloat = Fin real | NaN | PInf | NInf

text \<open>
  Rounding to the nearest double, ties to the even mantissa: the mantissa has 53 bits,
  the unit in the last place is at least \<open>2 powr - 1074\<close>, and a rounded magnitude of
  \<open>2 ^ 1024\<close> or more overflows to an infinity.
\<close>

definition round_even :: "real \<Rightarrow> int" where
  "round_even x =
     (let f = \<lfloor>x\<rfloor>; r = x - of_int f
      in if r < 1 / 2 then f else if 1 / 2 < r then f + 1 else if even f then f else f + 1)"

definition to_double :: "real \<Rightarrow> pyfloat" where
  "to_double x =
     (if x = 0 then Fin 0
      else let e = max (\<lfloor>log 2 \<bar>x\<bar>\<rfloor> - 52) (- 1074);
               y = of_int (round_even (x / 2 powr of_int e)) * 2 powr of_int e
           in if 2 ^ 1024 \<le> \<bar>y\<bar> then (if 0 < x then PInf else NInf) else Fin y)"

text \<open>Python's \<^verbatim>\<open>+\<close> and \<^verbatim>\<open>*\<close> on floats.\<close>

fun fadd :: "pyfloat \<Rightarrow> pyfloat \<Rightarrow> pyfloat" where
  "fadd (Fin x) (Fin y) = to_double (x + y)"
| "fadd NaN _ = NaN"
| "fadd _ NaN = NaN"
| "fadd PInf NInf = NaN"
| "fadd NInf PInf = NaN"
| "fadd PInf _ = PInf"
| "fadd _ PInf = PInf"
| "fadd NInf _ = NInf"
| "fadd _ NInf = NInf"

fun fmul :: "pyfloat \<Rightarrow> pyfloat \<Rightarrow> pyfloat" where
  "fmul (Fin x) (Fin y) = to_double (x * y)"
| "fmul NaN _ = NaN"
| "fmul _ NaN = NaN"
| "fmul PInf (Fin y) = (if y = 0 then NaN else if 0 < y then PInf else NInf)"
| "fmul NInf (Fin y) = (if y = 0 then NaN else if 0 < y then NInf else PInf)"
| "fmul (Fin x) PInf = (if x = 0 then NaN else if 0 < x then PInf else NInf)"
| "fmul (Fin x) NInf = (if x = 0 then NaN else if 0 < x then NInf else PInf)"
| "fmul PInf PInf = PInf"
| "fmul PInf NInf = NInf"
| "fmul NInf PInf = NInf"
| "fmul NInf NInf = PInf"

text \<open>
  Python's \<^verbatim>\<open><=\<close> and \<^verbatim>\<open><\<close> on floats (\<^verbatim>\<open>a > b\<close> is \<open>float_less b a\<close>): every
  comparison with NaN is false.
\<close>

fun float_le :: "pyfloat \<Rightarrow> pyfloat \<Rightarrow> bool" where
  "float_le (Fin x) (Fin y) = (x \<le> y)"
| "float_le NaN _ = False"
| "float_le _ NaN = False"
| "float_le NInf _ = True"
| "float_le _ PInf = True"
| "float_le _ _ = False"

fun float_less :: "pyfloat \<Rightarrow> pyfloat \<Rightarrow> bool" where
  "float_less (Fin x) (Fin y) = (x < y)"
| "float_less NaN _ = False"
| "float_less _ NaN = False"
| "float_less PInf _ = False"
| "float_less _ NInf = False"
| "float_less _ _ = True"

text \<open>
  \<^verbatim>\<open>sum(...)\<close> over floats: the additions are made from left to right, starting at 0.
  (CPython from 3.12 on carries a compensation term along the way, which can change the
  last bit of a sum of three or more floats; it changes nothing where no addition
  rounds, nor in a sum of two floats.)
\<close>

definition py_sum :: "pyfloat list \<Rightarrow> pyfloat" where
  "py_sum fs = foldl fadd (Fin 0) fs"

text \<open>
  A value that is about to go through \<^verbatim>\<open>flt\<close>: \<open>Float f\<close> is the float \<open>f\<close>, or a number or
  text that Python's \<^verbatim>\<open>float()\<close> reads as \<open>f\<close> (\<^verbatim>\<open>"nan"\<close> reads as \<open>NaN\<close>, \<^verbatim>\<open>"inf"\<close> as
  \<open>PInf\<close>); \<open>NotNumber\<close> is \<^verbatim>\<open>None\<close> or text that \<^verbatim>\<open>float()\<close> refuses. \<open>Number x\<close> writes the
  finite case. \<^verbatim>\<open>flt\<close> is the framework's converter; timepy.py:108-109 documents it:
  \<^verbatim>\<open>flt("abc")\<close> gives 0.0 instead of raising.
\<close>

datatype pyval = Float pyfloat | NotNumber

abbreviation Number :: "real \<Rightarrow> pyval" where
  "Number x \<equiv> Float (Fin x)"

fun flt :: "pyval \<Rightarrow> pyfloat" where
  "flt (Float f) = f"
| "flt NotNumber = Fin 0"

text \<open>
  The number the store's SQL engine sees in a numeric column: the column holds decimal
  numbers, a NULL adds nothing to a SUM, and the engine has no NaN or infinity.
\<close>

fun sql_number :: "pyval \<Rightarrow> real" where
  "sql_number (Float (Fin x)) = x"
| "sql_number _ = 0"

text \<open>
  A month or year argument of \<^verbatim>\<open>generate_invoice\<close>: \<open>NoArg\<close> is \<^verbatim>\<open>None\<close> or the empty
  text (falsy), \<open>IntArg n\<close> is text that \<^verbatim>\<open>int()\<close> reads as \<open>n\<close>, \<open>BadArg\<close> is text that
  \<^verbatim>\<open>int()\<close> refuses with a ValueError.
\<close>

datatype int_arg = NoArg | IntArg int | BadArg

text \<open>A date is (year, month, day); dates compare lexicographically.\<close>

type_synonym date = "int \<times> int \<times> int"

definition YEAR :: "date \<Rightarrow> int" where
  "YEAR d = fst d"

definition MONTH :: "date \<Rightarrow> int" where
  "MONTH d = fst (snd d)"

definition DAY :: "date \<Rightarrow> int" where
  "DAY d = snd (snd d)"

text \<open>
  The exception classes the source names or raises. \<^verbatim>\<open>frappe.throw(msg)\<close> raises
  \<open>ValidationError\<close> unless it is given another class; \<^verbatim>\<open>frappe.only_for\<close> raises
  \<open>PermissionError\<close>. The message records which \<^verbatim>\<open>throw\<close> or \<^verbatim>\<open>raise\<close> it was, with
  the values formatted into it.
\<close>

datatype exc_type =
    ValidationError | PermissionError | DoesNotExistError | ValueError | AttributeError

datatype message =
    ProjectRequired                 \<comment> \<open>Project is required\<close>
  | HoursNotPositive                \<comment> \<open>Hours must be greater than 0\<close>
  | HoursExceed24                   \<comment> \<open>Hours cannot exceed 24 in a day\<close>
  | NoCreatePermission              \<comment> \<open>You don't have permission to create Time Logs\<close>
  | ProjectDoesNotExist string      \<comment> \<open>Project {0} does not exist\<close>
  | ProjectNotFound string          \<comment> \<open>Project not found: {0} / Project {0} not found\<close>
  | BillingRateNotSet string        \<comment> \<open>Billing rate not set for project {0}\<close>
  | NoTimeLogsFound string int int  \<comment> \<open>No time logs found for {0} in {1}/{2}\<close>
  | OnlyOwnTimeLogs                 \<comment> \<open>You can only edit your own time logs\<close>
  | TimeLogNotFound nat             \<comment> \<open>Time Log {0} not found\<close>
  | LogsMustBeList                  \<comment> \<open>logs must be a list\<close>
  | ItemProjectRequired nat         \<comment> \<open>Item {idx+1}: project is required\<close>
  | ItemHoursNotPositive nat        \<comment> \<open>Item {idx+1}: hours must be > 0\<close>
  | NoMessage                       \<comment> \<open>raised by the framework or by Python itself\<close>

type_synonym error = "exc_type \<times> message"

subsection \<open>Documents, store, session\<close>

text \<open>
  A Time Log document. \<open>name\<close> is the identifier the framework assigns on insert
  (modelled as a running number); \<open>docstatus\<close> is 0 for a draft, 1 for a submitted and
  2 for a cancelled document.
\<close>

record time_log =
  name :: nat
  project :: string
  hours :: pyval
  description :: string
  log_date :: date
  logged_by :: string
  docstatus :: nat

record project_doc =
  project_name :: string
  billing_rate :: pyval
  customer :: string

record db =
  projects :: "string \<Rightarrow> project_doc option"
  time_logs :: "time_log list"
  next_name :: nat
  reads :: nat

text \<open>
  The session: the calling user, its roles, the verdicts of the framework's permission
  engine (\<^verbatim>\<open>frappe.has_permission\<close> for create and write, the row filter that
  \<^verbatim>\<open>frappe.db.get_list\<close> applies for read) and the current date.
\<close>

record session =
  user :: string
  roles :: "string list"
  can_create :: bool
  can_write :: "time_log \<Rightarrow> bool"
  can_read :: "time_log \<Rightarrow> bool"
  today :: date

definition only_for :: "string list \<Rightarrow> session \<Rightarrow> error + unit" where
  "only_for rs ctx =
     (if set rs \<inter> set (roles ctx) = {} then Inl (PermissionError, NoMessage) else Inr ())"

text \<open>Every read of the store is counted.\<close>

definition fetch :: "db \<Rightarrow> db" where
  "fetch d = d\<lparr>reads := reads d + 1\<rparr>"

definition db_exists :: "db \<Rightarrow> string \<Rightarrow> bool \<times> db" where
  "db_exists d p = (projects d p \<noteq> None, fetch d)"

definition get_value :: "db \<Rightarrow> string \<Rightarrow> project_doc option \<times> db" where
  "get_value d p = (projects d p, fetch d)"

text \<open>
  Modelled from the spec: the \<^verbatim>\<open>before_insert\<close> handler \<^verbatim>\<open>validate_time_log\<close>, which
  hooks.py wires to Time Log and which is not in the source; the spec describes it as
  a pre-creation hook rejecting entries whose hours exceed 24.
\<close>

definition validate_time_log :: "time_log \<Rightarrow> error + unit" where
  "validate_time_log doc =
     (if float_less (Fin 24) (flt (hours doc)) then Inl (ValidationError, HoursExceed24)
      else Inr ())"

text \<open>
  \<^verbatim>\<open>frappe.get_doc({...}).insert(ignore_permissions=False)\<close>: the framework checks the
  create permission, runs the \<^verbatim>\<open>before_insert\<close> hook, names the document and appends
  it to the table as a draft. The \<^verbatim>\<open>after_insert\<close> and \<^verbatim>\<open>on_update\<close> handler
  \<^verbatim>\<open>update_project_billing\<close> recomputes a derived figure that is not part of this store.
\<close>

definition insert_doc ::
  "session \<Rightarrow> db \<Rightarrow> string \<Rightarrow> pyfloat \<Rightarrow> string \<Rightarrow> date
     \<Rightarrow> (error + time_log) \<times> db" where
  "insert_doc ctx d proj hrs descr ldate =
     (let doc = \<lparr>name = next_name d, project = proj, hours = Float hrs,
                 description = descr, log_date = ldate, logged_by = user ctx,
                 docstatus = 0\<rparr>
      in if \<not> can_create ctx then (Inl (PermissionError, NoMessage), d)
         else case validate_time_log doc of
                Inl e \<Rightarrow> (Inl e, d)
              | Inr _ \<Rightarrow> (Inr doc, d\<lparr>time_logs := time_logs d @ [doc],
                                     next_name := next_name d + 1\<rparr>))"

subsection \<open>timepy.py: log\_time\<close>

definition log_time ::
  "session \<Rightarrow> db \<Rightarrow> string \<Rightarrow> pyval \<Rightarrow> string option \<Rightarrow> date option
     \<Rightarrow> (error + nat) \<times> db" where
  "log_time ctx d proj hrs_arg descr ldate =
     (if proj = [] then (Inl (ValidationError, ProjectRequired), d)
      else let hrs = flt hrs_arg in
        if float_le hrs (Fin 0) then (Inl (ValidationError, HoursNotPositive), d)
        else if float_less (Fin 24) hrs then (Inl (ValidationError, HoursExceed24), d)
        else if \<not> can_create ctx then (Inl (PermissionError, NoCreatePermission), d)
        else case db_exists d proj of
          (False, d1) \<Rightarrow> (Inl (ValidationError, ProjectDoesNotExist proj), d1)
        | (True, d1) \<Rightarrow>
            (case insert_doc ctx d1 proj hrs
                    (case descr of None \<Rightarrow> [] | Some s \<Rightarrow> s)
                    (case ldate of None \<Rightarrow> today ctx | Some dt \<Rightarrow> dt) of
               (Inl e, d2) \<Rightarrow> (Inl e, d2)
             | (Inr doc, d2) \<Rightarrow> (Inr (name doc), d2)))"

subsection \<open>Queries on the Time Log table\<close>

text \<open>
  \<^verbatim>\<open>frappe.db.get_list("Time Log", filters, fields, order_by, limit)\<close>: the rows the caller
  may read that pass the filter, in the requested order, cut at the limit when one is
  given. timepy.py:191-196 describes it: it respects the user's permissions. Rows with
  equal sort keys keep their table order here; the store leaves that order open.
\<close>

definition get_list ::
  "session \<Rightarrow> db \<Rightarrow> (time_log \<Rightarrow> bool) \<Rightarrow> (time_log list \<Rightarrow> time_log list)
     \<Rightarrow> nat option \<Rightarrow> time_log list \<times> db" where
  "get_list ctx d filters order_by limit =
     (let rows = order_by (filter (\<lambda>l. can_read ctx l \<and> filters l) (time_logs d))
      in (case limit of None \<Rightarrow> rows | Some n \<Rightarrow> take n rows, fetch d))"

text \<open>\<^verbatim>\<open>frappe.db.sql\<close> with a WHERE clause and ORDER BY log\_date.\<close>

definition sql_select :: "db \<Rightarrow> (time_log \<Rightarrow> bool) \<Rightarrow> time_log list \<times> db" where
  "sql_select d wh = (sort_key log_date (filter wh (time_logs d)), fetch d)"

text \<open>\<^verbatim>\<open>x or 0\<close> on a fetched field: an unset field becomes 0.\<close>

fun or_zero :: "pyval \<Rightarrow> pyval" where
  "or_zero (Float f) = Float f"
| "or_zero NotNumber = Float (Fin 0)"

subsection \<open>timepy.py: get\_project\_summary\<close>

record summary =
  s_project :: string
  s_total_hours :: pyfloat
  s_billing_rate :: pyval
  s_total_amount :: pyfloat
  s_log_count :: nat
  s_logs :: "time_log list"

definition get_project_summary :: "session \<Rightarrow> db \<Rightarrow> string \<Rightarrow> (error + summary) \<times> db" where
  "get_project_summary ctx d proj =
     (case db_exists d proj of
        (False, d1) \<Rightarrow> (Inl (ValidationError, ProjectNotFound proj), d1)
      | (True, d1) \<Rightarrow>
          (case get_list ctx d1 (\<lambda>l. project l = proj) (\<lambda>rows. rev (sort_key log_date rows))
                  (Some 100) of
             (logs, d2) \<Rightarrow>
               (case get_value d2 proj of
                  (pd, d3) \<Rightarrow>
                    (let project_billing_rate =
                           or_zero (case pd of None \<Rightarrow> NotNumber | Some p \<Rightarrow> billing_rate p);
                         total_hours = py_sum (map (\<lambda>l. flt (hours l)) logs);
                         total_amount = fmul total_hours (flt project_billing_rate)
                     in (Inr \<lparr>s_project = proj, s_total_hours = total_hours,
                              s_billing_rate = project_billing_rate,
                              s_total_amount = total_amount,
                              s_log_count = length logs, s_logs = logs\<rparr>, d3)))))"

subsection \<open>timepy.py: get\_all\_employees\_hours\<close>

text \<open>
  One row of the grouped query: \<^verbatim>\<open>logged_by, SUM(hours) AS total_hours,
  COUNT(name) AS entries, project\<close>.
\<close>

record group_row =
  g_logged_by :: string
  g_total_hours :: real
  g_entries :: nat
  g_project :: string

text \<open>
  \<^verbatim>\<open>GROUP BY tl.logged_by, tl.project\<close>: a row joins the group of its (logged\_by, project)
  pair, or opens a new group behind the groups found so far.
\<close>

fun add_to_group :: "time_log \<Rightarrow> group_row list \<Rightarrow> group_row list" where
  "add_to_group l [] =
     [\<lparr>g_logged_by = logged_by l, g_total_hours = sql_number (hours l), g_entries = 1,
       g_project = project l\<rparr>]"
| "add_to_group l (g # gs) =
     (if g_logged_by g = logged_by l \<and> g_project g = project l
      then g\<lparr>g_total_hours := g_total_hours g + sql_number (hours l),
             g_entries := g_entries g + 1\<rparr> # gs
      else g # add_to_group l gs)"

definition group_by :: "time_log list \<Rightarrow> group_row list" where
  "group_by rows = fold add_to_group rows []"

text \<open>
  \<^verbatim>\<open>ORDER BY total_hours DESC\<close> is done by the store. SQL fixes the result up to the order
  of rows with equal \<open>total_hours\<close>, so the store's ordering is an argument \<open>ob\<close> of the
  query, and \<open>order_by_desc\<close> is what SQL promises of it.
\<close>

definition order_by_desc :: "(group_row list \<Rightarrow> group_row list) \<Rightarrow> bool" where
  "order_by_desc ob =
     (\<forall>gs. mset (ob gs) = mset gs \<and>
           sorted_wrt (\<lambda>a b. g_total_hours a \<ge> g_total_hours b) (ob gs))"

definition sql_grouped ::
  "(group_row list \<Rightarrow> group_row list) \<Rightarrow> db \<Rightarrow> int \<Rightarrow> int \<Rightarrow> group_row list \<times> db" where
  "sql_grouped ob d m y =
     (ob (group_by (filter (\<lambda>tl. MONTH (log_date tl) = m \<and> YEAR (log_date tl) = y
                                  \<and> docstatus tl \<noteq> 2) (time_logs d))),
      fetch d)"

text \<open>
  The month and year arguments are bound as SQL parameters without conversion: \<open>None\<close> is
  an absent (falsy) argument, \<open>Some n\<close> an argument the store reads as the number \<open>n\<close>.
\<close>

definition get_all_employees_hours ::
  "(group_row list \<Rightarrow> group_row list) \<Rightarrow> session \<Rightarrow> db \<Rightarrow> int option \<Rightarrow> int option
     \<Rightarrow> (error + int \<times> int \<times> group_row list) \<times> db" where
  "get_all_employees_hours ob ctx d month year =
     (case only_for [''HR Manager'', ''System Manager''] ctx of
        Inl e \<Rightarrow> (Inl e, d)
      | Inr _ \<Rightarrow>
          (let m = (case month of None \<Rightarrow> MONTH (today ctx) | Some v \<Rightarrow> v);
               y = (case year of None \<Rightarrow> YEAR (today ctx) | Some v \<Rightarrow> v)
           in case sql_grouped ob d m y of
                (results, d1) \<Rightarrow> (Inr (m, y, results), d1)))"

subsection \<open>timepy.py: safe\_update\_hours\<close>

text \<open>
  \<^verbatim>\<open>doc.save(ignore_permissions=False)\<close>: the framework checks the write permission on the
  document and rewrites its row.
\<close>

definition save_doc :: "session \<Rightarrow> db \<Rightarrow> time_log \<Rightarrow> (error + unit) \<times> db" where
  "save_doc ctx d doc =
     (if \<not> can_write ctx doc then (Inl (PermissionError, NoMessage), d)
      else (Inr (), d\<lparr>time_logs := map (\<lambda>l. if name l = name doc then doc else l)
                                         (time_logs d)\<rparr>))"

text \<open>
  The result carries \<open>old_hours\<close> and \<open>new_hours\<close>. A PermissionError is re-raised, a
  missing document becomes the \<^verbatim>\<open>frappe.throw\<close> of line 438.
\<close>

definition safe_update_hours ::
  "session \<Rightarrow> db \<Rightarrow> nat \<Rightarrow> pyval \<Rightarrow> (error + pyval \<times> pyfloat) \<times> db" where
  "safe_update_hours ctx d time_log_name new_hours_arg =
     (let new_hours = flt new_hours_arg; d1 = fetch d
      in case find (\<lambda>l. name l = time_log_name) (time_logs d) of
           None \<Rightarrow> (Inl (ValidationError, TimeLogNotFound time_log_name), d1)
         | Some doc \<Rightarrow>
             if logged_by doc \<noteq> user ctx \<and> \<not> can_write ctx doc
             then (Inl (PermissionError, OnlyOwnTimeLogs), d1)
             else (let old_hours = hours doc
                   in case save_doc ctx d1 (doc\<lparr>hours := Float new_hours\<rparr>) of
                        (Inl e, d2) \<Rightarrow> (Inl e, d2)
                      | (Inr _, d2) \<Rightarrow> (Inr (old_hours, new_hours), d2)))"

subsection \<open>timepy.py: bulk\_log\_time\<close>

text \<open>
  One element of the parsed list: a dict, whose keys may be missing, or a value without
  \<^verbatim>\<open>.get\<close> (a number, a text, a list). The argument itself is JSON text that does not
  parse, a parsed value that is not a list, or a list.
\<close>

record log_data =
  i_project :: "string option"
  i_hours :: "pyval option"
  i_description :: "string option"
  i_log_date :: "date option"

datatype item = NotDict | Dict log_data

datatype logs_arg = BadJson | NotList | LogList "item list"

text \<open>The body of the \<^verbatim>\<open>try\<close> for the item at index \<open>idx\<close>.\<close>

definition try_item :: "session \<Rightarrow> db \<Rightarrow> nat \<Rightarrow> item \<Rightarrow> (error + time_log) \<times> db" where
  "try_item ctx d idx it =
     (case it of
        NotDict \<Rightarrow> (Inl (AttributeError, NoMessage), d)
      | Dict ld \<Rightarrow>
          (case i_project ld of
             None \<Rightarrow> (Inl (ValueError, ItemProjectRequired (idx + 1)), d)
           | Some proj \<Rightarrow>
               if proj = [] then (Inl (ValueError, ItemProjectRequired (idx + 1)), d)
               else (let hrs = flt (case i_hours ld of None \<Rightarrow> Number 0 | Some v \<Rightarrow> v)
                     in if float_le hrs (Fin 0)
                        then (Inl (ValueError, ItemHoursNotPositive (idx + 1)), d)
                        else insert_doc ctx d proj hrs
                               (case i_description ld of None \<Rightarrow> [] | Some s \<Rightarrow> s)
                               (case i_log_date ld of None \<Rightarrow> today ctx | Some dt \<Rightarrow> dt))))"

text \<open>
  The \<^verbatim>\<open>for idx, log_data in enumerate(logs)\<close> loop with its \<^verbatim>\<open>except Exception\<close>:
  a created name or an (index, message) pair is recorded and the loop goes on.
\<close>

fun bulk_loop ::
  "session \<Rightarrow> nat \<Rightarrow> item list \<Rightarrow> nat list \<times> (nat \<times> message) list \<times> db
     \<Rightarrow> nat list \<times> (nat \<times> message) list \<times> db" where
  "bulk_loop ctx idx [] acc = acc"
| "bulk_loop ctx idx (it # its) (created, errors, d) =
     (case try_item ctx d idx it of
        (Inr doc, d1) \<Rightarrow> bulk_loop ctx (idx + 1) its (created @ [name doc], errors, d1)
      | (Inl e, d1) \<Rightarrow> bulk_loop ctx (idx + 1) its (created, errors @ [(idx, snd e)], d1))"

record bulk_result =
  created :: "nat list"
  created_count :: nat
  errors :: "(nat \<times> message) list"
  error_count :: nat

definition bulk_log_time :: "session \<Rightarrow> db \<Rightarrow> logs_arg \<Rightarrow> (error + bulk_result) \<times> db" where
  "bulk_log_time ctx d logs =
     (case logs of
        BadJson \<Rightarrow> (Inl (ValueError, NoMessage), d)
      | NotList \<Rightarrow> (Inl (ValidationError, LogsMustBeList), d)
      | LogList its \<Rightarrow>
          (case bulk_loop ctx 0 its ([], [], d) of
             (cr, errs, d1) \<Rightarrow>
               (Inr \<lparr>created = cr, created_count = length cr,
                     errors = errs, error_count = length errs\<rparr>, d1)))"

subsection \<open>billing.py: generate\_invoice\<close>

text \<open>\<^verbatim>\<open>int(arg or default)\<close>.\<close>

fun int_or :: "int_arg \<Rightarrow> int \<Rightarrow> error + int" where
  "int_or NoArg dflt = Inr dflt"
| "int_or (IntArg n) dflt = Inr n"
| "int_or BadArg dflt = Inl (ValueError, NoMessage)"

record invoice =
  inv_project :: string
  inv_customer :: string
  inv_month :: int
  inv_year :: int
  inv_total_hours :: pyfloat
  inv_billing_rate :: pyfloat
  inv_total_amount :: pyfloat
  inv_logs :: "time_log list"
  inv_generated_on :: date
  inv_generated_by :: string

definition generate_invoice ::
  "session \<Rightarrow> db \<Rightarrow> string \<Rightarrow> int_arg \<Rightarrow> int_arg \<Rightarrow> (error + invoice) \<times> db" where
  "generate_invoice ctx d proj month_arg year_arg =
     (case int_or month_arg (MONTH (today ctx)) of
        Inl e \<Rightarrow> (Inl e, d)
      | Inr month \<Rightarrow>
     (case int_or year_arg (YEAR (today ctx)) of
        Inl e \<Rightarrow> (Inl e, d)
      | Inr year \<Rightarrow>
     (case only_for [''Time Tracker Manager'', ''System Manager''] ctx of
        Inl e \<Rightarrow> (Inl e, d)
      | Inr _ \<Rightarrow>
     (case get_value d proj of
        (None, d1) \<Rightarrow> (Inl (ValidationError, ProjectNotFound proj), d1)
      | (Some project_data, d1) \<Rightarrow>
          (let rate = flt (billing_rate project_data)
           in if rate = Fin 0 then (Inl (ValidationError, BillingRateNotSet proj), d1)
              else
                (case sql_select d1 (\<lambda>l. project l = proj \<and> MONTH (log_date l) = month
                                          \<and> YEAR (log_date l) = year \<and> docstatus l = 0) of
                   (logs, d2) \<Rightarrow>
                     if logs = []
                     then (Inl (ValidationError, NoTimeLogsFound proj month year), d2)
                     else
                       (let total_hours = py_sum (map (\<lambda>l. flt (hours l)) logs);
                            total_amount = fmul total_hours rate
                        in (Inr \<lparr>inv_project = proj,
                                 inv_customer = customer project_data,
                                 inv_month = month, inv_year = year,
                                 inv_total_hours = total_hours,
                                 inv_billing_rate = rate,
                                 inv_total_amount = total_amount,
                                 inv_logs = logs,
                                 inv_generated_on = today ctx,
                                 inv_generated_by = user ctx\<rparr>, d2))))))))"

subsection \<open>billing.py: download\_timesheet\_csv\<close>

text \<open>
  The month goes through the format code \<^verbatim>\<open>02d\<close>, which takes an integer and raises a
  ValueError on text. The file content is the header and one line per fetched row; a
  line is kept as its four fields.
\<close>

datatype fmt_arg = IntVal int | TextVal

datatype csv_line = Header | Line date string pyval string

definition between :: "date \<Rightarrow> date \<Rightarrow> date \<Rightarrow> bool" where
  "between lo hi x = (lo \<le> x \<and> x \<le> hi)"

definition download_timesheet_csv ::
  "session \<Rightarrow> db \<Rightarrow> string \<Rightarrow> fmt_arg \<Rightarrow> int
     \<Rightarrow> (error + (string \<times> int \<times> int) \<times> csv_line list) \<times> db" where
  "download_timesheet_csv ctx d proj month_arg year =
     (case only_for [''Time Tracker Manager'', ''System Manager''] ctx of
        Inl e \<Rightarrow> (Inl e, d)
      | Inr _ \<Rightarrow>
          (case month_arg of
             TextVal \<Rightarrow> (Inl (ValueError, NoMessage), d)
           | IntVal month \<Rightarrow>
               (case get_list ctx d
                       (\<lambda>l. project l = proj
                            \<and> between (year, month, 1) (year, month, 28) (log_date l))
                       (\<lambda>rows. rows) None of
                  (logs, d1) \<Rightarrow>
                    (Inr ((proj, year, month),
                          Header # map (\<lambda>l. Line (log_date l) (logged_by l) (hours l)
                                                (description l)) logs), d1))))"

subsection \<open>Reading results\<close>

definition succeeded :: "('e + 'a) \<times> 's \<Rightarrow> bool" where
  "succeeded r = (case fst r of Inl _ \<Rightarrow> False | Inr _ \<Rightarrow> True)"

definition raised :: "(error + 'a) \<times> 's \<Rightarrow> exc_type option" where
  "raised r = (case fst r of Inl e \<Rightarrow> Some (fst e) | Inr _ \<Rightarrow> None)"

text \<open>The hours of an entry lie in (0, 24].\<close>

definition hours_in_range :: "time_log \<Rightarrow> bool" where
  "hours_in_range l =
     (float_less (Fin 0) (flt (hours l)) \<and> float_le (flt (hours l)) (Fin 24))"

text \<open>The cancellation flag of an entry is unset.\<close>

definition not_cancelled :: "time_log \<Rightarrow> bool" where
  "not_cancelled l = (docstatus l \<noteq> 2)"

text \<open>An item of a bulk import is accepted: its \<^verbatim>\<open>try\<close> body ends without an exception.\<close>

definition item_accepted :: "session \<Rightarrow> db \<Rightarrow> nat \<Rightarrow> item \<Rightarrow> bool" where
  "item_accepted ctx d idx it = succeeded (try_item ctx d idx it)"

subsection \<open>Example sessions and stores\<close>

definition employee :: session where
  "employee = \<lparr>user = ''ann@example.com'', roles = [''Employee''], can_create = True,
                can_write = (\<lambda>l. logged_by l = ''ann@example.com''),
                can_read = (\<lambda>_. True), today = (2024, 12, 30)\<rparr>"

definition manager :: session where
  "manager = \<lparr>user = ''bob@example.com'',
               roles = [''Employee'', ''Time Tracker Manager'', ''HR Manager''],
               can_create = True, can_write = (\<lambda>_. True), can_read = (\<lambda>_. True),
               today = (2024, 12, 30)\<rparr>"

definition website :: project_doc where
  "website = \<lparr>project_name = ''Website'', billing_rate = Number 10, customer = ''ACME''\<rparr>"

definition db0 :: db where
  "db0 = \<lparr>projects = [''PROJ-001'' \<mapsto> website], time_logs = [], next_name = 1, reads = 0\<rparr>"

definition mixed_logs :: "time_log list" where
  "mixed_logs =
     [\<lparr>name = 1, project = ''PROJ-001'', hours = Number 2, description = ''design'',
       log_date = (2024, 12, 2), logged_by = ''ann@example.com'', docstatus = 0\<rparr>,
      \<lparr>name = 2, project = ''PROJ-001'', hours = NotNumber, description = ''review'',
       log_date = (2024, 12, 3), logged_by = ''ann@example.com'', docstatus = 0\<rparr>,
      \<lparr>name = 3, project = ''PROJ-001'', hours = Number 3, description = ''deploy'',
       log_date = (2024, 12, 30), logged_by = ''bob@example.com'', docstatus = 0\<rparr>]"

definition db_mixed :: db where
  "db_mixed = db0\<lparr>time_logs := mixed_logs, next_name := 4\<rparr>"

definition status_logs :: "time_log list" where
  "status_logs =
     [\<lparr>name = 1, project = ''PROJ-001'', hours = Number 2, description = ''draft'',
       log_date = (2024, 12, 2), logged_by = ''ann@example.com'', docstatus = 0\<rparr>,
      \<lparr>name = 2, project = ''PROJ-001'', hours = Number 4, description = ''cancelled'',
       log_date = (2024, 12, 3), logged_by = ''ann@example.com'', docstatus = 2\<rparr>,
      \<lparr>name = 3, project = ''PROJ-001'', hours = Number 1, description = ''submitted'',
       log_date = (2024, 12, 4), logged_by = ''ann@example.com'', docstatus = 1\<rparr>]"

definition db_status :: db where
  "db_status = db0\<lparr>time_logs := status_logs, next_name := 4\<rparr>"

definition december_logs :: "time_log list" where
  "december_logs =
     [\<lparr>name = 1, project = ''PROJ-001'', hours = Number 2, description = ''first'',
       log_date = (2024, 12, 1), logged_by = ''ann@example.com'', docstatus = 0\<rparr>,
      \<lparr>name = 2, project = ''PROJ-001'', hours = Number 4, description = ''day 28'',
       log_date = (2024, 12, 28), logged_by = ''ann@example.com'', docstatus = 0\<rparr>,
      \<lparr>name = 3, project = ''PROJ-001'', hours = Number 1, description = ''day 29'',
       log_date = (2024, 12, 29), logged_by = ''ann@example.com'', docstatus = 0\<rparr>,
      \<lparr>name = 4, project = ''PROJ-001'', hours = Number 6, description = ''day 31'',
       log_date = (2024, 12, 31), logged_by = ''bob@example.com'', docstatus = 0\<rparr>]"

definition db_december :: db where
  "db_december = db0\<lparr>time_logs := december_logs, next_name := 5\<rparr>"

definition unrated :: db where
  "unrated = db_mixed\<lparr>projects := [''PROJ-001'' \<mapsto> website\<lparr>billing_rate := NotNumber\<rparr>]\<rparr>"

text \<open>The line of the CSV file for one fetched row.\<close>

definition csv_line_of :: "time_log \<Rightarrow> csv_line" where
  "csv_line_of l = Line (log_date l) (logged_by l) (hours l) (description l)"

text \<open>
  Two orderings that both sort by \<open>total_hours\<close> descending: \<open>stable_desc\<close> keeps rows
  with equal totals in their incoming order, \<open>ties_reversed\<close> reverses them.
\<close>

definition stable_desc :: "group_row list \<Rightarrow> group_row list" where
  "stable_desc gs = sort_key (\<lambda>g. - g_total_hours g) gs"

definition ties_reversed :: "group_row list \<Rightarrow> group_row list" where
  "ties_reversed gs = rev (sort_key g_total_hours gs)"

text \<open>The grouping key of a result row and of a Time Log row, and what the rows of one
  key add up to.\<close>

definition group_key :: "group_row \<Rightarrow> string \<times> string" where
  "group_key g = (g_logged_by g, g_project g)"

definition row_key :: "time_log \<Rightarrow> string \<times> string" where
  "row_key l = (logged_by l, project l)"

definition hours_of_key :: "group_row list \<Rightarrow> string \<times> string \<Rightarrow> real" where
  "hours_of_key gs k = sum_list (map g_total_hours (filter (\<lambda>g. group_key g = k) gs))"

definition entries_of_key :: "group_row list \<Rightarrow> string \<times> string \<Rightarrow> nat" where
  "entries_of_key gs k = sum_list (map g_entries (filter (\<lambda>g. group_key g = k) gs))"

text \<open>
  Six entries of December 2024, the last one cancelled; their groups in the order of
  first appearance have the totals 12, 5, 12 and 3.
\<close>

definition group_logs :: "time_log list" where
  "group_logs =
     [\<lparr>name = 1, project = ''PROJ-001'', hours = Number 12, description = '''',
       log_date = (2024, 12, 2), logged_by = ''ann@example.com'', docstatus = 0\<rparr>,
      \<lparr>name = 2, project = ''PROJ-001'', hours = Number 5, description = '''',
       log_date = (2024, 12, 2), logged_by = ''bob@example.com'', docstatus = 0\<rparr>,
      \<lparr>name = 3, project = ''PROJ-002'', hours = Number 7, description = '''',
       log_date = (2024, 12, 3), logged_by = ''ann@example.com'', docstatus = 1\<rparr>,
      \<lparr>name = 4, project = ''PROJ-001'', hours = Number 3, description = '''',
       log_date = (2024, 12, 3), logged_by = ''cat@example.com'', docstatus = 0\<rparr>,
      \<lparr>name = 5, project = ''PROJ-002'', hours = Number 5, description = '''',
       log_date = (2024, 12, 4), logged_by = ''ann@example.com'', docstatus = 0\<rparr>,
      \<lparr>name = 6, project = ''PROJ-002'', hours = Number 9, description = '''',
       log_date = (2024, 12, 5), logged_by = ''bob@example.com'', docstatus = 2\<rparr>]"

definition db_groups :: db where
  "db_groups = \<lparr>projects = [''PROJ-001'' \<mapsto> website, ''PROJ-002'' \<mapsto> website],
                 time_logs = group_logs, next_name = 7, reads = 0\<rparr>"

text \<open>A real number is representable when rounding to a double leaves it as it is.\<close>

definition representable :: "real \<Rightarrow> bool" where
  "representable x = (to_double x = Fin x)"






text \<open>
  Validity of an item as the spec words it (4.1, which 4.5 applies to every item of a
  bulk import): the project is given and refers to an existing Project, the hours parse
  to a positive number, and the hours do not exceed 24.
\<close>

definition spec_valid_item :: "db \<Rightarrow> item \<Rightarrow> bool" where
  "spec_valid_item d it =
     (case it of
        NotDict \<Rightarrow> False
      | Dict ld \<Rightarrow>
          (case i_project ld of
             None \<Rightarrow> False
           | Some proj \<Rightarrow>
               proj \<noteq> [] \<and> projects d proj \<noteq> None \<and>
               (case i_hours ld of
                  Some (Float (Fin x)) \<Rightarrow> 0 < x \<and> x \<le> 24
                | _ \<Rightarrow> False)))"

text \<open>A bulk import of three items, the second for a project that does not exist.\<close>

definition ghost_items :: "item list" where
  "ghost_items =
     [Dict \<lparr>i_project = Some ''PROJ-001'', i_hours = Some (Number 2),
            i_description = Some ''design'', i_log_date = Some (2024, 12, 2)\<rparr>,
      Dict \<lparr>i_project = Some ''PROJ-404'', i_hours = Some (Number 4),
            i_description = None, i_log_date = None\<rparr>,
      Dict \<lparr>i_project = Some ''PROJ-001'', i_hours = Some (Number 3),
            i_description = None, i_log_date = None\<rparr>]"

section \<open>Properties\<close>

subsection \<open>Rounding to a double\<close>

lemma round_even_of_int: "round_even (of_int m) = m"
  by (simp add: round_even_def)



text \<open>Every integer below \<open>2 ^ 53\<close> in magnitude is a double.\<close>

lemma to_double_of_int:
  assumes "\<bar>n\<bar> < 2 ^ 53"
  shows "to_double (of_int n) = Fin (of_int n)"
proof (cases "n = 0")
  case True
  then show ?thesis by (simp add: to_double_def)
next
  case False
  let ?x = "of_int n :: real"
  define k where "k = \<lfloor>log 2 \<bar>?x\<bar>\<rfloor>"
  have x1: "1 \<le> \<bar>?x\<bar>"
    using False by (simp flip: of_int_abs)
  have x2: "\<bar>?x\<bar> < 2 ^ 53"
    using assms by (metis of_int_abs of_int_less_numeral_power_cancel_iff)
  have "0 \<le> log 2 \<bar>?x\<bar>"
    using x1 by simp
  then have k0: "0 \<le> k"
    by (simp add: k_def)
  have "log 2 \<bar>?x\<bar> < 53"
    using x1 x2 by (simp add: log_less_iff powr_realpow)
  then have k52: "k \<le> 52"
    unfolding k_def by linarith
  define j where "j = nat (52 - k)"
  have e: "max (k - 52) (- 1074) = k - 52"
    using k0 by simp
  have p: "(2::real) powr (of_int k - 52) = 1 / 2 ^ j"
  proof -
    have "(of_int k - 52 :: real) = - real j"
      using k52 by (simp add: j_def)
    then have "(2::real) powr (of_int k - 52) = 2 powr (- real j)"
      by simp
    also have "\<dots> = 1 / 2 ^ j"
      by (simp add: powr_minus powr_realpow divide_inverse)
    finally show ?thesis .
  qed
  have "of_int (round_even (?x / 2 powr (of_int k - 52))) * 2 powr (of_int k - 52) = ?x"
  proof -
    have "?x / (1 / 2 ^ j) = of_int (n * 2 ^ j)"
      by simp
    then have "round_even (?x / (1 / 2 ^ j)) = n * 2 ^ j"
      using round_even_of_int by metis
    then show ?thesis
      by (simp only: p) simp
  qed
  moreover have "\<not> (2 :: real) ^ 1024 \<le> \<bar>?x\<bar>"
  proof -
    have "(2::real) ^ 53 \<le> 2 ^ 1024"
      by (rule power_increasing) simp_all
    with x2 show ?thesis by linarith
  qed
  ultimately show ?thesis
    using False e by (simp add: to_double_def k_def [symmetric] Let_def)
qed

lemma to_double_numeral:
  "numeral w < (2::int) ^ 53 \<Longrightarrow> to_double (numeral w) = Fin (numeral w)"
  using to_double_of_int [of "numeral w"] by simp

lemma to_double_zero: "to_double 0 = Fin 0"
  by (simp add: to_double_def)

lemma to_double_one: "to_double 1 = Fin 1"
  using to_double_of_int [of 1] by simp

lemmas to_double_simps = to_double_zero to_double_one to_double_numeral

lemma representable_zero: "representable 0"
  by (simp add: representable_def to_double_def)

lemma representable_numeral: "numeral w < (2::int) ^ 53 \<Longrightarrow> representable (numeral w)"
  by (simp add: representable_def to_double_numeral)






subsection \<open>Validation of hours in log\_time\<close>

text \<open>
  For hours that coerce to a number or an infinity, and a call that is otherwise
  acceptable, \<open>log_time\<close> succeeds exactly when the hours lie in (0, 24]; hours outside
  are rejected with a ValidationError and the store is left as it was.
\<close>

lemma log_time_range_of_numbers:
  assumes "flt h \<noteq> NaN"
  shows "(proj \<noteq> [] \<and> can_create ctx \<and> projects d proj \<noteq> None \<longrightarrow>
      (succeeded (log_time ctx d proj h descr ldate)
         \<longleftrightarrow> float_less (Fin 0) (flt h) \<and> float_le (flt h) (Fin 24))) \<and>
   (\<not> (float_less (Fin 0) (flt h) \<and> float_le (flt h) (Fin 24)) \<longrightarrow>
      (\<exists>m. log_time ctx d proj h descr ldate = (Inl (ValidationError, m), d)))"
  using assms
  by (cases "flt h")
     (auto simp: log_time_def succeeded_def db_exists_def insert_doc_def
        validate_time_log_def Let_def
      split: prod.splits sum.splits bool.splits)


subsection \<open>Aggregation of hours and amounts\<close>






subsection \<open>Failures of generate\_invoice\<close>

text \<open>
  C3, as the code has it. For a caller holding a manager role and month and year
  arguments that convert: an absent project, a zero or unset billing rate, and a period
  without entries of the project whose cancellation flag is unset each end
  \<open>generate_invoice\<close> with a ValidationError (every one is a plain \<^verbatim>\<open>frappe.throw\<close>).
  The rate is checked before the entries are fetched: with a zero or unset rate the
  store has served one read, that of the project, whatever entries exist.
\<close>

theorem generate_invoice_failures:
  "set [''Time Tracker Manager'', ''System Manager''] \<inter> set (roles ctx) \<noteq> {} \<and>
   int_or month_arg (MONTH (today ctx)) = Inr m \<and>
   int_or year_arg (YEAR (today ctx)) = Inr y \<longrightarrow>
     (projects d proj = None \<longrightarrow>
        generate_invoice ctx d proj month_arg year_arg
          = (Inl (ValidationError, ProjectNotFound proj), fetch d)) \<and>
     (\<forall>pd. projects d proj = Some pd \<and> flt (billing_rate pd) = Fin 0 \<longrightarrow>
        generate_invoice ctx d proj month_arg year_arg
          = (Inl (ValidationError, BillingRateNotSet proj), fetch d)) \<and>
     (\<forall>pd. projects d proj = Some pd \<and> flt (billing_rate pd) \<noteq> Fin 0 \<and>
           filter (\<lambda>l. project l = proj \<and> MONTH (log_date l) = m \<and> YEAR (log_date l) = y
                        \<and> not_cancelled l) (time_logs d) = [] \<longrightarrow>
        generate_invoice ctx d proj month_arg year_arg
          = (Inl (ValidationError, NoTimeLogsFound proj m y), fetch (fetch d)))"
proof -
  have "filter (\<lambda>l. project l = proj \<and> MONTH (log_date l) = m \<and> YEAR (log_date l) = y
                   \<and> docstatus l = 0) (time_logs d) = []"
    if "filter (\<lambda>l. project l = proj \<and> MONTH (log_date l) = m \<and> YEAR (log_date l) = y
                   \<and> not_cancelled l) (time_logs d) = []"
    using that by (auto simp: filter_empty_conv not_cancelled_def)
  then show ?thesis
    by (auto simp: generate_invoice_def only_for_def get_value_def sql_select_def fetch_def
        Let_def)
qed

theorem generate_invoice_failures_witness:
  "generate_invoice manager db0 ''PROJ-404'' NoArg NoArg
     = (Inl (ValidationError, ProjectNotFound ''PROJ-404''), fetch db0) \<and>
   generate_invoice manager unrated ''PROJ-001'' (IntArg 12) (IntArg 2024)
     = (Inl (ValidationError, BillingRateNotSet ''PROJ-001''), fetch unrated) \<and>
   generate_invoice manager db_mixed ''PROJ-001'' (IntArg 11) (IntArg 2024)
     = (Inl (ValidationError, NoTimeLogsFound ''PROJ-001'' 11 2024), fetch (fetch db_mixed))"
  using generate_invoice_failures [of manager NoArg 12 NoArg 2024 db0 "''PROJ-404''"]
    generate_invoice_failures [of manager "IntArg 12" 12 "IntArg 2024" 2024 unrated
      "''PROJ-001''"]
    generate_invoice_failures [of manager "IntArg 11" 11 "IntArg 2024" 2024 db_mixed
      "''PROJ-001''"]
  by (simp add: manager_def db0_def db_mixed_def unrated_def mixed_logs_def website_def
      MONTH_def YEAR_def not_cancelled_def)

text \<open>
  C3 as stated fails: for an absent project, and for a project without entries in the
  period, the exception raised is a ValidationError and not the not-found class
  (\<^verbatim>\<open>frappe.DoesNotExistError\<close>).
\<close>

theorem generate_invoice_not_found_class:
  "raised (generate_invoice manager db0 ''PROJ-404'' NoArg NoArg) = Some ValidationError \<and>
   raised (generate_invoice manager db0 ''PROJ-404'' NoArg NoArg) \<noteq> Some DoesNotExistError \<and>
   raised (generate_invoice manager db0 ''PROJ-001'' NoArg NoArg) = Some ValidationError \<and>
   raised (generate_invoice manager db0 ''PROJ-001'' NoArg NoArg) \<noteq> Some DoesNotExistError"
  by (simp add: raised_def generate_invoice_def manager_def db0_def website_def only_for_def
      get_value_def sql_select_def fetch_def MONTH_def YEAR_def Let_def)

subsection \<open>Which entries are aggregated\<close>

text \<open>
  C4 at a store holding a draft entry of 2 hours, a cancelled entry of 4 hours and a
  submitted entry of 1 hour for one project: \<open>get_project_summary\<close> counts all three
  (7 hours, the cancelled entry included), \<open>generate_invoice\<close> counts the draft alone
  (2 hours, the submitted entry left out), while two entries are not cancelled.
\<close>

theorem summary_counts_cancelled_entry:
  "(\<exists>s d'. get_project_summary manager db_status ''PROJ-001'' = (Inr s, d') \<and>
      s_total_hours s = Fin 7 \<and> s_log_count s = 3 \<and> \<not> list_all not_cancelled (s_logs s)) \<and>
   (\<exists>iv d'. generate_invoice manager db_status ''PROJ-001'' NoArg NoArg = (Inr iv, d') \<and>
      inv_total_hours iv = Fin 2 \<and> length (inv_logs iv) = 1) \<and>
   length (filter not_cancelled (time_logs db_status)) = 2"
  by (simp add: get_project_summary_def generate_invoice_def manager_def db_status_def db0_def
      status_logs_def website_def only_for_def get_value_def fetch_def db_exists_def
      get_list_def sql_select_def MONTH_def YEAR_def Let_def not_cancelled_def py_sum_def
      to_double_simps)

subsection \<open>The range of stored hours\<close>

text \<open>
  C5 at a store whose entries all have hours in (0, 24]: the owner of entry 1 calls
  \<open>safe_update_hours\<close> with 30, or with a value that does not parse (coerced to 0); the
  call succeeds and the stored hours of the entry are 30, or 0.
\<close>

theorem safe_update_hours_out_of_range:
  "list_all hours_in_range (time_logs db_status) \<and>
   (\<exists>d'. safe_update_hours employee db_status 1 (Number 30) = (Inr (Number 2, Fin 30), d') \<and>
      \<not> list_all hours_in_range (time_logs d') \<and>
      map hours (time_logs d') = [Number 30, Number 4, Number 1]) \<and>
   (\<exists>d'. safe_update_hours employee db_status 1 NotNumber = (Inr (Number 2, Fin 0), d') \<and>
      \<not> list_all hours_in_range (time_logs d') \<and>
      map hours (time_logs d') = [Number 0, Number 4, Number 1])"
  by (simp add: safe_update_hours_def save_doc_def employee_def db_status_def db0_def
      status_logs_def fetch_def hours_in_range_def Let_def)

subsection \<open>Callers without the role\<close>

text \<open>
  C8, as the code has it. A caller without a manager role gets a PermissionError from
  \<open>generate_invoice\<close> when the month and year arguments convert, and in every case the
  call fails and returns the store as it was, its read counter included: nothing was
  fetched. A caller without the HR or system manager role gets a PermissionError from
  \<open>get_all_employees_hours\<close>, for any arguments, with the store as it was.
\<close>

theorem unauthorized_calls:
  "(set [''Time Tracker Manager'', ''System Manager''] \<inter> set (roles ctx) = {} \<longrightarrow>
      (month_arg \<noteq> BadArg \<and> year_arg \<noteq> BadArg \<longrightarrow>
         generate_invoice ctx d proj month_arg year_arg
           = (Inl (PermissionError, NoMessage), d)) \<and>
      (\<exists>e. generate_invoice ctx d proj month_arg year_arg = (Inl e, d))) \<and>
   (set [''HR Manager'', ''System Manager''] \<inter> set (roles ctx) = {} \<longrightarrow>
      get_all_employees_hours ob ctx d month year = (Inl (PermissionError, NoMessage), d))"
  by (cases month_arg; cases year_arg)
     (simp_all add: generate_invoice_def get_all_employees_hours_def only_for_def)

theorem unauthorized_calls_witness:
  "set [''Time Tracker Manager'', ''System Manager''] \<inter> set (roles employee) = {} \<and>
   set [''HR Manager'', ''System Manager''] \<inter> set (roles employee) = {} \<and>
   generate_invoice employee db_mixed ''PROJ-001'' (IntArg 12) NoArg
     = (Inl (PermissionError, NoMessage), db_mixed) \<and>
   get_all_employees_hours stable_desc employee db_mixed None None
     = (Inl (PermissionError, NoMessage), db_mixed)"
  using unauthorized_calls [of employee "IntArg 12" NoArg db_mixed "''PROJ-001''"
      stable_desc None None]
  by (simp add: employee_def)

text \<open>
  C8 as stated fails: \<open>generate_invoice\<close> converts month and year before it checks the
  role, so a caller without the role who sends a month that is not a number gets a
  ValueError, not a PermissionError.
\<close>

theorem unauthorized_bad_month:
  "raised (generate_invoice employee db_mixed ''PROJ-001'' BadArg NoArg) = Some ValueError \<and>
   raised (generate_invoice employee db_mixed ''PROJ-001'' BadArg NoArg)
     \<noteq> Some PermissionError"
  by (simp add: raised_def generate_invoice_def)

subsection \<open>The timesheet export\<close>

lemma between_days:
  "between (y, m, 1) (y, m, 28) dt \<longleftrightarrow>
     YEAR dt = y \<and> MONTH dt = m \<and> 1 \<le> DAY dt \<and> DAY dt \<le> 28"
  by (cases dt) (auto simp: between_def YEAR_def MONTH_def DAY_def)

text \<open>
  C10. For a caller holding a manager role and an integer month, the exported file is
  the header followed by one line for each readable entry of the project dated from the
  1st to the 28th of the month; no entry dated on the 29th or later has a line in it.
\<close>

theorem csv_first_28_days:
  "only_for [''Time Tracker Manager'', ''System Manager''] ctx = Inr () \<longrightarrow>
     (\<exists>content d'.
        download_timesheet_csv ctx d proj (IntVal m) y = (Inr ((proj, y, m), content), d') \<and>
        content = Header # map csv_line_of
          (filter (\<lambda>l. can_read ctx l \<and> project l = proj \<and> YEAR (log_date l) = y \<and>
                        MONTH (log_date l) = m \<and> 1 \<le> DAY (log_date l) \<and>
                        DAY (log_date l) \<le> 28)
             (time_logs d)) \<and>
        (\<forall>l \<in> set (time_logs d). 29 \<le> DAY (log_date l) \<longrightarrow> csv_line_of l \<notin> set content))"
  by (auto simp: download_timesheet_csv_def get_list_def between_days csv_line_of_def)

theorem csv_first_28_days_witness:
  "only_for [''Time Tracker Manager'', ''System Manager''] manager = Inr () \<and>
   download_timesheet_csv manager db_december ''PROJ-001'' (IntVal 12) 2024
     = (Inr ((''PROJ-001'', 2024, 12),
             [Header,
              Line (2024, 12, 1) ''ann@example.com'' (Number 2) ''first'',
              Line (2024, 12, 28) ''ann@example.com'' (Number 4) ''day 28'']),
        fetch db_december)"
  using csv_first_28_days [of manager db_december "''PROJ-001''" 12 2024]
  by (simp add: download_timesheet_csv_def get_list_def between_def only_for_def manager_def
      db_december_def december_logs_def db0_def fetch_def)

subsection \<open>Summary after logging\<close>

text \<open>
  C9. In a store without entries for project P, whose billing rate is 10, a caller who
  may create Time Logs and read back the own entries for P logs 2 hours and then 3 hours
  for P. Both calls succeed, and the summary of P taken right after has total hours 5,
  total amount 50 and log count 2. \<open>get_project_summary\<close> has no month or year argument;
  when both entries are dated in month M of year Y, the invoice of a caller with a
  manager role for (P, M, Y) has the same totals and two entries.
\<close>

theorem summary_round_trip:
  assumes "proj \<noteq> []" and "can_create ctx" and "projects d proj = Some pd"
    and "billing_rate pd = Number 10"
    and "\<forall>l \<in> set (time_logs d). project l \<noteq> proj"
    and "\<forall>l. project l = proj \<and> logged_by l = user ctx \<longrightarrow> can_read ctx l"
  shows "\<exists>n1 d1 n2 d2 s d3.
           log_time ctx d proj (Number 2) descr1 ldate1 = (Inr n1, d1) \<and>
           log_time ctx d1 proj (Number 3) descr2 ldate2 = (Inr n2, d2) \<and>
           get_project_summary ctx d2 proj = (Inr s, d3) \<and>
           s_total_hours s = Fin 5 \<and> s_total_amount s = Fin 50 \<and> s_log_count s = 2 \<and>
           (set [''Time Tracker Manager'', ''System Manager''] \<inter> set (roles ctx) \<noteq> {} \<and>
            ldate1 = Some (Y, M, day1) \<and> ldate2 = Some (Y, M, day2) \<longrightarrow>
              (\<exists>iv d4. generate_invoice ctx d2 proj (IntArg M) (IntArg Y) = (Inr iv, d4) \<and>
                 inv_total_hours iv = Fin 5 \<and> inv_total_amount iv = Fin 50 \<and>
                 length (inv_logs iv) = 2))"
proof -
  have none: "filter (\<lambda>l. can_read ctx l \<and> project l = proj) (time_logs d) = []"
    using assms(5) by (simp add: filter_empty_conv)
  have none2: "filter (\<lambda>l. project l = proj \<and> MONTH (log_date l) = M \<and> YEAR (log_date l) = Y
                  \<and> docstatus l = 0) (time_logs d) = []"
    using assms(5) by (simp add: filter_empty_conv)
  show ?thesis
    using assms(1-4,6) none none2
    by (simp add: log_time_def db_exists_def insert_doc_def validate_time_log_def fetch_def
        get_project_summary_def get_list_def get_value_def Let_def py_sum_def
        to_double_simps generate_invoice_def only_for_def sql_select_def MONTH_def
        YEAR_def)
qed

theorem summary_round_trip_witness:
  "\<exists>n1 d1 n2 d2 s d3.
     log_time manager db0 ''PROJ-001'' (Number 2) (Some ''design'') (Some (2024, 12, 2))
       = (Inr n1, d1) \<and>
     log_time manager d1 ''PROJ-001'' (Number 3) None (Some (2024, 12, 9)) = (Inr n2, d2) \<and>
     get_project_summary manager d2 ''PROJ-001'' = (Inr s, d3) \<and>
     s_total_hours s = Fin 5 \<and> s_total_amount s = Fin 50 \<and> s_log_count s = 2 \<and>
     (\<exists>iv d4. generate_invoice manager d2 ''PROJ-001'' (IntArg 12) (IntArg 2024)
                 = (Inr iv, d4) \<and>
        inv_total_hours iv = Fin 5 \<and> inv_total_amount iv = Fin 50 \<and> length (inv_logs iv) = 2)"
  using summary_round_trip [of "''PROJ-001''" manager db0 website "Some ''design''"
      "Some (2024, 12, 2)" None "Some (2024, 12, 9)" 2024 12 2 9]
  by (simp add: manager_def db0_def website_def)

subsection \<open>Bulk import\<close>

lemma try_item_accepted:
  "item_accepted ctx d idx it \<Longrightarrow>
   \<exists>doc. try_item ctx d idx it
     = (Inr doc, d\<lparr>time_logs := time_logs d @ [doc], next_name := next_name d + 1\<rparr>)"
  by (auto simp: item_accepted_def succeeded_def try_item_def insert_doc_def
        validate_time_log_def Let_def
      split: item.splits option.splits if_splits sum.splits)

lemma try_item_rejected:
  "\<not> item_accepted ctx d idx it \<Longrightarrow> \<exists>e. try_item ctx d idx it = (Inl e, d)"
  by (auto simp: item_accepted_def succeeded_def try_item_def insert_doc_def
        validate_time_log_def Let_def
      split: item.splits option.splits if_splits sum.splits)

text \<open>Whether an item is accepted depends on the item and the session alone.\<close>

lemma item_accepted_indep:
  "item_accepted ctx d idx it = item_accepted ctx d' idx' it"
  by (auto simp: item_accepted_def succeeded_def try_item_def insert_doc_def
        validate_time_log_def Let_def
      split: item.splits option.splits if_splits sum.splits)

lemma bulk_loop_append:
  "bulk_loop ctx idx (xs @ ys) acc
     = bulk_loop ctx (idx + length xs) ys (bulk_loop ctx idx xs acc)"
proof (induction xs arbitrary: idx acc)
  case Nil
  show ?case by simp
next
  case (Cons x xs)
  obtain cr errs d where acc: "acc = (cr, errs, d)"
    by (cases acc) auto
  show ?case
    by (simp add: acc Cons.IH split: prod.splits sum.splits)
qed

lemma bulk_loop_all_accepted:
  "\<forall>it \<in> set its. item_accepted ctx d 0 it \<Longrightarrow>
   \<exists>cr2 d'. bulk_loop ctx idx its (cr, errs, d) = (cr @ cr2, errs, d') \<and>
            length cr2 = length its \<and>
            length (time_logs d') = length (time_logs d) + length its"
proof (induction its arbitrary: idx cr d)
  case Nil
  show ?case by simp
next
  case (Cons it its)
  from Cons.prems have "item_accepted ctx d 0 it"
    by simp
  then have "item_accepted ctx d idx it"
    using item_accepted_indep by blast
  then obtain doc where t: "try_item ctx d idx it
     = (Inr doc, d\<lparr>time_logs := time_logs d @ [doc], next_name := next_name d + 1\<rparr>)"
    using try_item_accepted by blast
  let ?d1 = "d\<lparr>time_logs := time_logs d @ [doc], next_name := next_name d + 1\<rparr>"
  have "\<forall>it \<in> set its. item_accepted ctx ?d1 0 it"
  proof
    fix x
    assume "x \<in> set its"
    with Cons.prems have "item_accepted ctx d 0 x"
      by simp
    then show "item_accepted ctx ?d1 0 x"
      using item_accepted_indep by blast
  qed
  from Cons.IH [OF this, of "idx + 1" "cr @ [name doc]"]
  obtain cr2 d' where
    "bulk_loop ctx (idx + 1) its (cr @ [name doc], errs, ?d1)
       = ((cr @ [name doc]) @ cr2, errs, d')"
    "length cr2 = length its"
    "length (time_logs d') = length (time_logs ?d1) + length its"
    by blast
  then show ?case
    using t by (intro exI [of _ "name doc # cr2"] exI [of _ d']) simp
qed

text \<open>
  One failing item does not abort the batch: when the \<^verbatim>\<open>try\<close> body of the item at index
  k (counted from 0) raises and the bodies of all other items do not, the call returns
  created\_count = N - 1 and error\_count = 1, the one error entry carries the index k,
  and the Time Log table has grown by N - 1 rows.
\<close>

lemma bulk_one_rejected_item:
  assumes "k < length its"
    and "\<not> item_accepted ctx d k (its ! k)"
    and "\<forall>i < length its. i \<noteq> k \<longrightarrow> item_accepted ctx d i (its ! i)"
  shows "\<exists>r d'. bulk_log_time ctx d (LogList its) = (Inr r, d') \<and>
           created_count r = length its - 1 \<and> length (created r) = length its - 1 \<and>
           error_count r = 1 \<and> map fst (errors r) = [k] \<and>
           length (time_logs d') = length (time_logs d) + (length its - 1)"
proof -
  let ?pre = "take k its" and ?post = "drop (Suc k) its"
  have split: "its = ?pre @ (its ! k) # ?post"
    using assms(1) by (simp add: id_take_nth_drop)
  have pre: "\<forall>it \<in> set ?pre. item_accepted ctx d 0 it"
  proof
    fix it
    assume "it \<in> set ?pre"
    then obtain i where "i < length ?pre" "?pre ! i = it"
      by (auto simp: in_set_conv_nth)
    then have "i < length its" "i \<noteq> k" "its ! i = it"
      by auto
    with assms(3) have "item_accepted ctx d i it"
      by auto
    then show "item_accepted ctx d 0 it"
      using item_accepted_indep by blast
  qed
  from bulk_loop_all_accepted [OF pre, of 0 "[]" "[]"]
  obtain cr1 d1 where
    l1: "bulk_loop ctx 0 ?pre ([], [], d) = (cr1, [], d1)" and
    c1: "length cr1 = length ?pre" and
    t1: "length (time_logs d1) = length (time_logs d) + length ?pre"
    by auto
  from assms(2) have "\<not> item_accepted ctx d1 k (its ! k)"
    using item_accepted_indep by blast
  then obtain e where bad: "try_item ctx d1 k (its ! k) = (Inl e, d1)"
    using try_item_rejected by blast
  have post: "\<forall>it \<in> set ?post. item_accepted ctx d1 0 it"
  proof
    fix it
    assume "it \<in> set ?post"
    then obtain i where "i < length ?post" "?post ! i = it"
      by (auto simp: in_set_conv_nth)
    then have "Suc k + i < length its" "Suc k + i \<noteq> k" "its ! (Suc k + i) = it"
      by auto
    with assms(3) have "item_accepted ctx d (Suc k + i) it"
      by blast
    then show "item_accepted ctx d1 0 it"
      using item_accepted_indep by blast
  qed
  from bulk_loop_all_accepted [OF post, of "Suc k" cr1 "[(k, snd e)]"]
  obtain cr2 d2 where
    l2: "bulk_loop ctx (Suc k) ?post (cr1, [(k, snd e)], d1)
           = (cr1 @ cr2, [(k, snd e)], d2)" and
    c2: "length cr2 = length ?post" and
    t2: "length (time_logs d2) = length (time_logs d1) + length ?post"
    by auto
  have lenk: "length ?pre = k"
    using assms(1) by simp
  have "bulk_loop ctx 0 its ([], [], d) = (cr1 @ cr2, [(k, snd e)], d2)"
    by (subst split) (simp only: bulk_loop_append l1 lenk, simp add: bad l2)
  moreover have "length (cr1 @ cr2) = length its - 1"
    using c1 c2 assms(1) by simp
  moreover have "length (time_logs d2) = length (time_logs d) + (length its - 1)"
    using t1 t2 assms(1) by simp
  ultimately show ?thesis
    by (simp add: bulk_log_time_def)
qed

text \<open>
  C6 at a bulk import of three items, the second naming a project that does not exist:
  the item is invalid (\<open>log_time\<close> rejects the same project), yet \<open>bulk_log_time\<close> has
  no existence check, creates all three entries and reports no error.
\<close>

theorem bulk_imports_unknown_project:
  "spec_valid_item db0 (ghost_items ! 0) \<and>
   \<not> spec_valid_item db0 (ghost_items ! 1) \<and>
   spec_valid_item db0 (ghost_items ! 2) \<and>
   (\<exists>d'. bulk_log_time employee db0 (LogList ghost_items)
            = (Inr \<lparr>created = [1, 2, 3], created_count = 3,
                    errors = [], error_count = 0\<rparr>, d') \<and>
          map project (time_logs d') = [''PROJ-001'', ''PROJ-404'', ''PROJ-001'']) \<and>
   log_time employee db0 ''PROJ-404'' (Number 4) None None
     = (Inl (ValidationError, ProjectDoesNotExist ''PROJ-404''), fetch db0)"
  by (simp add: spec_valid_item_def bulk_log_time_def try_item_def insert_doc_def
      validate_time_log_def log_time_def db_exists_def ghost_items_def employee_def db0_def
      fetch_def Let_def)

subsection \<open>The grouped report\<close>

lemma keys_add_to_group:
  "map group_key (add_to_group l gs) =
     (if row_key l \<in> set (map group_key gs) then map group_key gs
      else map group_key gs @ [row_key l])"
  by (induction gs) (auto simp: group_key_def row_key_def)

lemma keys_fold:
  "distinct (map group_key gs) \<Longrightarrow>
   distinct (map group_key (fold add_to_group rows gs)) \<and>
   set (map group_key (fold add_to_group rows gs))
     = set (map group_key gs) \<union> row_key ` set rows"
proof (induction rows arbitrary: gs)
  case Nil
  then show ?case by simp
next
  case (Cons l rows)
  have "distinct (map group_key (add_to_group l gs))"
    using Cons.prems by (simp add: keys_add_to_group)
  from Cons.IH [OF this] show ?case
    by (auto simp: keys_add_to_group)
qed

lemma hours_add_to_group:
  "hours_of_key (add_to_group l gs) k
     = hours_of_key gs k + (if row_key l = k then sql_number (hours l) else 0)"
  by (induction gs) (auto simp: hours_of_key_def group_key_def row_key_def)

lemma entries_add_to_group:
  "entries_of_key (add_to_group l gs) k
     = entries_of_key gs k + (if row_key l = k then 1 else 0)"
  by (induction gs) (auto simp: entries_of_key_def group_key_def row_key_def)

lemma hours_fold:
  "hours_of_key (fold add_to_group rows gs) k
     = hours_of_key gs k
       + sum_list (map (\<lambda>l. sql_number (hours l)) (filter (\<lambda>l. row_key l = k) rows))"
  by (induction rows arbitrary: gs) (simp_all add: hours_add_to_group)

lemma entries_fold:
  "entries_of_key (fold add_to_group rows gs) k
     = entries_of_key gs k + length (filter (\<lambda>l. row_key l = k) rows)"
  by (induction rows arbitrary: gs) (simp_all add: entries_add_to_group)

lemma of_key_Nil: "hours_of_key [] k = 0" "entries_of_key [] k = 0"
  by (simp_all add: hours_of_key_def entries_of_key_def)

lemma of_key_distinct:
  "distinct (map group_key gs) \<Longrightarrow> g \<in> set gs \<Longrightarrow>
   hours_of_key gs (group_key g) = g_total_hours g \<and>
   entries_of_key gs (group_key g) = g_entries g"
proof (induction gs)
  case Nil
  then show ?case by simp
next
  case (Cons a gs)
  show ?case
  proof (cases "g = a")
    case True
    have "filter (\<lambda>x. group_key x = group_key a) gs = []"
      using Cons.prems(1) by (auto simp: filter_empty_conv image_iff)
    with True show ?thesis
      by (simp add: hours_of_key_def entries_of_key_def)
  next
    case False
    with Cons.prems have "g \<in> set gs" "group_key a \<noteq> group_key g"
      by auto
    with Cons show ?thesis
      by (simp add: hours_of_key_def entries_of_key_def)
  qed
qed

text \<open>
  Grouping yields one row per (logged\_by, project) pair of the input, carrying the sum
  of the hours and the number of the entries of that pair.
\<close>

lemma group_by_sums:
  "distinct (map group_key (group_by rows)) \<and>
   set (map group_key (group_by rows)) = row_key ` set rows \<and>
   (\<forall>g \<in> set (group_by rows).
      g_total_hours g
        = sum_list (map (\<lambda>l. sql_number (hours l)) (filter (\<lambda>l. row_key l = group_key g) rows)) \<and>
      g_entries g = length (filter (\<lambda>l. row_key l = group_key g) rows))"
proof -
  have k: "distinct (map group_key (group_by rows)) \<and>
      set (map group_key (group_by rows)) = row_key ` set rows"
    using keys_fold [of "[]" rows] by (simp add: group_by_def)
  have "\<And>g. g \<in> set (group_by rows) \<Longrightarrow>
      g_total_hours g
        = sum_list (map (\<lambda>l. sql_number (hours l)) (filter (\<lambda>l. row_key l = group_key g) rows)) \<and>
      g_entries g = length (filter (\<lambda>l. row_key l = group_key g) rows)"
  proof -
    fix g
    assume "g \<in> set (group_by rows)"
    with k have "hours_of_key (group_by rows) (group_key g) = g_total_hours g"
      "entries_of_key (group_by rows) (group_key g) = g_entries g"
      using of_key_distinct by blast+
    then show "g_total_hours g
        = sum_list (map (\<lambda>l. sql_number (hours l)) (filter (\<lambda>l. row_key l = group_key g) rows)) \<and>
      g_entries g = length (filter (\<lambda>l. row_key l = group_key g) rows)"
      by (simp add: group_by_def hours_fold entries_fold of_key_Nil)
  qed
  with k show ?thesis by blast
qed

lemma order_by_desc_stable: "order_by_desc stable_desc"
proof -
  have "sorted_wrt (\<lambda>a b. g_total_hours a \<ge> g_total_hours b) (stable_desc gs)" for gs
  proof -
    have "sorted (map (\<lambda>g. - g_total_hours g) (stable_desc gs))"
      by (simp add: stable_desc_def)
    then show ?thesis by (simp add: sorted_map)
  qed
  then show ?thesis
    by (simp add: order_by_desc_def stable_desc_def)
qed

lemma order_by_desc_reversed: "order_by_desc ties_reversed"
proof -
  have "sorted_wrt (\<lambda>a b. g_total_hours a \<ge> g_total_hours b) (ties_reversed gs)" for gs
  proof -
    have "sorted (map g_total_hours (sort_key g_total_hours gs))"
      by simp
    then have "sorted_wrt (\<lambda>a b. g_total_hours a \<le> g_total_hours b)
                 (sort_key g_total_hours gs)"
      by (simp add: sorted_map)
    then show ?thesis
      by (simp add: ties_reversed_def sorted_wrt_rev)
  qed
  then show ?thesis
    by (simp add: order_by_desc_def ties_reversed_def)
qed

text \<open>
  C7, as the code has it. For a caller with the HR or system manager role and a store
  whose ORDER BY meets its SQL contract, the report of a period holds one row per
  (logged\_by, project) pair among the entries of the period that are not cancelled,
  each row with the sum of the hours and the number of those entries, and the rows are
  in descending order of total hours. So a row with total 12 always comes before a row
  with total 5. Nothing is said about the order of rows with equal totals.
\<close>

theorem grouped_report_sorted:
  fixes ob ctx d month year
  defines "m \<equiv> (case month of None \<Rightarrow> MONTH (today ctx) | Some v \<Rightarrow> v)"
    and "y \<equiv> (case year of None \<Rightarrow> YEAR (today ctx) | Some v \<Rightarrow> v)"
  defines "sel \<equiv> filter (\<lambda>l. MONTH (log_date l) = m \<and> YEAR (log_date l) = y
                               \<and> docstatus l \<noteq> 2) (time_logs d)"
  assumes "order_by_desc ob"
    and "set [''HR Manager'', ''System Manager''] \<inter> set (roles ctx) \<noteq> {}"
  shows "\<exists>rows. get_all_employees_hours ob ctx d month year = (Inr (m, y, rows), fetch d) \<and>
           sorted_wrt (\<lambda>a b. g_total_hours a \<ge> g_total_hours b) rows \<and>
           distinct (map group_key rows) \<and>
           set (map group_key rows) = row_key ` set sel \<and>
           (\<forall>g \<in> set rows.
              g_total_hours g
                = sum_list (map (\<lambda>l. sql_number (hours l))
                     (filter (\<lambda>l. row_key l = group_key g) sel)) \<and>
              g_entries g = length (filter (\<lambda>l. row_key l = group_key g) sel))"
proof -
  let ?rows = "ob (group_by sel)"
  have res: "get_all_employees_hours ob ctx d month year = (Inr (m, y, ?rows), fetch d)"
    using assms(5)
    by (simp add: get_all_employees_hours_def only_for_def sql_grouped_def Let_def
        m_def y_def sel_def)
  have ms: "mset ?rows = mset (group_by sel)" and
    so: "sorted_wrt (\<lambda>a b. g_total_hours a \<ge> g_total_hours b) ?rows"
    using assms(4) by (simp_all add: order_by_desc_def)
  from ms have st: "set ?rows = set (group_by sel)"
    by (rule mset_eq_setD)
  from ms have "mset (map group_key ?rows) = mset (map group_key (group_by sel))"
    by simp
  then have di: "distinct (map group_key ?rows) = distinct (map group_key (group_by sel))"
    by (rule mset_eq_imp_distinct_iff)
  show ?thesis
    using res so st di group_by_sums [of sel] by auto
qed

theorem grouped_report_sorted_witness:
  "order_by_desc stable_desc \<and>
   get_all_employees_hours stable_desc manager db_groups (Some 12) None
     = (Inr (12, 2024,
          [\<lparr>g_logged_by = ''ann@example.com'', g_total_hours = 12, g_entries = 1,
            g_project = ''PROJ-001''\<rparr>,
           \<lparr>g_logged_by = ''ann@example.com'', g_total_hours = 12, g_entries = 2,
            g_project = ''PROJ-002''\<rparr>,
           \<lparr>g_logged_by = ''bob@example.com'', g_total_hours = 5, g_entries = 1,
            g_project = ''PROJ-001''\<rparr>,
           \<lparr>g_logged_by = ''cat@example.com'', g_total_hours = 3, g_entries = 1,
            g_project = ''PROJ-001''\<rparr>]),
        fetch db_groups)"
proof -
  have r: "set [''HR Manager'', ''System Manager''] \<inter> set (roles manager) \<noteq> {}"
    by (simp add: manager_def)
  from grouped_report_sorted [OF order_by_desc_stable r, of db_groups "Some 12" None]
  obtain rows where
    "get_all_employees_hours stable_desc manager db_groups (Some 12) None
       = (Inr (12, YEAR (today manager), rows), fetch db_groups)"
    by auto
  moreover have "get_all_employees_hours stable_desc manager db_groups (Some 12) None
     = (Inr (12, 2024,
          [\<lparr>g_logged_by = ''ann@example.com'', g_total_hours = 12, g_entries = 1,
            g_project = ''PROJ-001''\<rparr>,
           \<lparr>g_logged_by = ''ann@example.com'', g_total_hours = 12, g_entries = 2,
            g_project = ''PROJ-002''\<rparr>,
           \<lparr>g_logged_by = ''bob@example.com'', g_total_hours = 5, g_entries = 1,
            g_project = ''PROJ-001''\<rparr>,
           \<lparr>g_logged_by = ''cat@example.com'', g_total_hours = 3, g_entries = 1,
            g_project = ''PROJ-001''\<rparr>]),
        fetch db_groups)"
    by (simp add: get_all_employees_hours_def only_for_def sql_grouped_def Let_def
        manager_def db_groups_def group_logs_def group_by_def stable_desc_def MONTH_def
        YEAR_def)
  ultimately show ?thesis
    using order_by_desc_stable by simp
qed

text \<open>
  C7 as stated fails on ties. \<open>ties_reversed\<close> orders by total hours descending, as the
  query asks; with it the report of the groups with totals 12, 5, 12, 3 (in order of
  first appearance) lists the 12-hour group that was found second before the one that
  was found first.
\<close>

theorem grouped_report_ties_reversed:
  "order_by_desc ties_reversed \<and>
   get_all_employees_hours ties_reversed manager db_groups (Some 12) (Some 2024)
     = (Inr (12, 2024,
          [\<lparr>g_logged_by = ''ann@example.com'', g_total_hours = 12, g_entries = 2,
            g_project = ''PROJ-002''\<rparr>,
           \<lparr>g_logged_by = ''ann@example.com'', g_total_hours = 12, g_entries = 1,
            g_project = ''PROJ-001''\<rparr>,
           \<lparr>g_logged_by = ''bob@example.com'', g_total_hours = 5, g_entries = 1,
            g_project = ''PROJ-001''\<rparr>,
           \<lparr>g_logged_by = ''cat@example.com'', g_total_hours = 3, g_entries = 1,
            g_project = ''PROJ-001''\<rparr>]),
        fetch db_groups) \<and>
   group_by (filter (\<lambda>l. docstatus l \<noteq> 2) group_logs)
     = [\<lparr>g_logged_by = ''ann@example.com'', g_total_hours = 12, g_entries = 1,
         g_project = ''PROJ-001''\<rparr>,
        \<lparr>g_logged_by = ''bob@example.com'', g_total_hours = 5, g_entries = 1,
         g_project = ''PROJ-001''\<rparr>,
        \<lparr>g_logged_by = ''ann@example.com'', g_total_hours = 12, g_entries = 2,
         g_project = ''PROJ-002''\<rparr>,
        \<lparr>g_logged_by = ''cat@example.com'', g_total_hours = 3, g_entries = 1,
         g_project = ''PROJ-001''\<rparr>]"
  using order_by_desc_reversed
  by (simp add: get_all_employees_hours_def only_for_def sql_grouped_def Let_def manager_def
      db_groups_def group_logs_def group_by_def ties_reversed_def MONTH_def YEAR_def)

end
